theory Spec2Isabelle
  imports Complex_Main
begin

section \<open>The prediction endpoint of model\_server.py\<close>

text \<open>
  A shallow embedding of \<^verbatim>\<open>src/model_server.py\<close>: the bearer-token check
  (\<^verbatim>\<open>verify_token\<close>), the content helpers (\<^verbatim>\<open>validate_content_length\<close>,
  \<^verbatim>\<open>is_invisible\<close>), the recorder (\<^verbatim>\<open>record_result\<close>), the prediction call
  (\<^verbatim>\<open>predict\<close>) and the request handler (\<^verbatim>\<open>predict_endpoint\<close>).

  Effects are explicit: every function that touches the loaded model, the record file or
  the error stream takes a \<open>world\<close> and returns the new one. Exceptions are values of
  the type \<open>exception\<close>; a function that may raise returns \<open>exception + 'a\<close>.
  The coroutines are run to completion one after the other (\<^verbatim>\<open>await\<close> is
  sequencing); the scheduling of concurrent requests is not part of the model.
\<close>

subsection \<open>Data\<close>

text \<open>
  A Python \<^verbatim>\<open>str\<close> whose characters the program inspects (the note) is the list of
  its Unicode code points, so that \<open>length\<close> is Python's \<^verbatim>\<open>len\<close>. Texts that are
  only compared or passed along (tokens, labels, messages, paths) are HOL strings.
\<close>

type_synonym str = "nat list"

datatype exception =
    HTTPException nat string  \<comment> \<open>\<^verbatim>\<open>HTTPException(status_code, detail)\<close>, a subclass of \<^verbatim>\<open>Exception\<close>\<close>
  | JSONDecodeError           \<comment> \<open>\<^verbatim>\<open>request.json()\<close> on a body that is not JSON\<close>
  | AttributeError            \<comment> \<open>\<^verbatim>\<open>data.get\<close> on a JSON value that is not an object\<close>
  | IndexError                \<comment> \<open>\<^verbatim>\<open>prediction[2][prediction[1]]\<close> out of range\<close>
  | OSError string            \<comment> \<open>a failure of \<^verbatim>\<open>open\<close> or \<^verbatim>\<open>write\<close>\<close>
  | OtherException string     \<comment> \<open>any other subclass of \<^verbatim>\<open>Exception\<close>, e.g. from the model\<close>

text \<open>
  The values read from \<^verbatim>\<open>config.yaml\<close> at start-up that the request path uses.
  \<open>max_content_length\<close> is a Python integer, so it may be negative.
\<close>

record config =
  tokens :: "string list"
  record_path :: string
  record_enabled :: bool
  max_content_length :: int

text \<open>
  Library functions the source calls and whose tables are not part of the repository: the
  string form of an exception and of a float, and the Unicode database's answer to
  \<^verbatim>\<open>isprintable\<close> for the code points beyond ASCII.
\<close>

record runtime =
  str_exception :: "exception \<Rightarrow> string"
  str_float :: "real \<Rightarrow> str"
  unicode_printable :: "nat \<Rightarrow> bool"

text \<open>
  The parsed request body. The note field, when present, holds a JSON string; an object
  is the dictionary of its fields. \<open>JOther\<close> is any JSON value that is not an object.
\<close>

datatype json = JObject "string \<rightharpoonup> str" | JOther

record request =
  authorization :: "string option"  \<comment> \<open>the bearer credential; \<open>None\<close> when the header is absent\<close>
  body :: "json option"             \<comment> \<open>\<open>None\<close> when the body is not valid JSON\<close>

datatype content =
    Prediction string real  \<comment> \<open>\<^verbatim>\<open>{"label": label, "score": score}\<close>\<close>
  | ErrorBody string        \<comment> \<open>\<^verbatim>\<open>{"error": str(e)}\<close>\<close>
  | Detail string           \<comment> \<open>\<^verbatim>\<open>{"detail": detail}\<close>, the framework's body for an \<^verbatim>\<open>HTTPException\<close>\<close>

datatype response = JSONResponse content nat

fun status_code :: "response \<Rightarrow> nat" where
  "status_code (JSONResponse c s) = s"

text \<open>
  The loaded model \<^verbatim>\<open>learn\<close>: an opaque capability with a state of its own.
  \<^verbatim>\<open>learn.predict(text)\<close> returns the label, the index of the label and the
  probabilities, or raises.
\<close>

type_synonym prediction = "string \<times> nat \<times> real list"

type_synonym 'm learner = "str \<Rightarrow> 'm \<Rightarrow> (exception + prediction) \<times> 'm"

text \<open>
  What a request can read and change outside its own variables: the state of the model,
  the texts handed to \<^verbatim>\<open>learn.predict\<close> so far (in call order), the files, the lines
  printed to \<^verbatim>\<open>sys.stderr\<close>, and whether the next attempt to open and write a file
  fails (\<open>Some (e, fs)\<close>: it raises \<open>e\<close> and leaves the files as \<open>fs\<close>).
\<close>

record 'm world =
  learner_state :: 'm
  predict_calls :: "str list"
  files :: "string \<rightharpoonup> str"
  stderr :: "string list"
  io_fault :: "(exception \<times> (string \<rightharpoonup> str)) option"

subsection \<open>Authorizer\<close>

text \<open>
  Modelled from the spec: the framework's bearer-security dependency
  (\<^verbatim>\<open>security = HTTPBearer()\<close>), whose code is not in the repository. It hands the
  credential of the authorization header to \<^verbatim>\<open>verify_token\<close>; the spec's 4.1 says
  ``Absence of a credential is treated identically to an invalid one'' and its section 8
  ``no authorization header \<open>\<rightarrow>\<close> 403''.
\<close>

definition security :: "string option \<Rightarrow> exception + string" where
  "security header =
     (case header of
        None \<Rightarrow> Inl (HTTPException 403 ''Invalid or missing token'')
      | Some credentials \<Rightarrow> Inr credentials)"

definition verify_token :: "config \<Rightarrow> string \<Rightarrow> exception + unit" where
  "verify_token cfg credentials =
     (if credentials \<notin> set (tokens cfg)
      then Inl (HTTPException 403 ''Invalid or missing token'')
      else Inr ())"

subsection \<open>ContentValidator\<close>

text \<open>Python's \<^verbatim>\<open>content[:n]\<close>: a negative \<open>n\<close> counts from the end.\<close>

definition slice_to :: "'a list \<Rightarrow> int \<Rightarrow> 'a list" where
  "slice_to xs n =
     (if 0 \<le> n then take (nat n) xs else take (nat (int (length xs) + n)) xs)"

definition validate_content_length :: "config \<Rightarrow> str \<Rightarrow> str" where
  "validate_content_length cfg content =
     (if int (length content) > max_content_length cfg
      then slice_to content (max_content_length cfg)
      else content)"

text \<open>
  \<^verbatim>\<open>char.isprintable()\<close>: the characters of the Unicode categories Other and Separator
  are not printable, except the ASCII space. In ASCII these are the controls
  \<open>0..31\<close> and \<open>127\<close>; the space \<open>32\<close> is printable.
\<close>

definition isprintable :: "runtime \<Rightarrow> nat \<Rightarrow> bool" where
  "isprintable rt c = (if c < 128 then 32 \<le> c \<and> c < 127 else unicode_printable rt c)"

definition is_invisible :: "runtime \<Rightarrow> str \<Rightarrow> bool" where
  "is_invisible rt content = (\<not> list_ex (isprintable rt) content)"

subsection \<open>ResultRecorder\<close>

text \<open>
  \<^verbatim>\<open>with open(path, 'a') as f: f.write(data)\<close>: the file is created when absent and
  the data go to its end, unless the attempt fails.
\<close>

definition open_append_write ::
  "string \<Rightarrow> str \<Rightarrow> 'm world \<Rightarrow> (exception + unit) \<times> 'm world" where
  "open_append_write path data w =
     (case io_fault w of
        Some (e, fs) \<Rightarrow> (Inl e, w\<lparr>files := fs, io_fault := None\<rparr>)
      | None \<Rightarrow>
          (Inr (),
           w\<lparr>files := (files w)(path \<mapsto>
                 (case files w path of None \<Rightarrow> [] | Some old \<Rightarrow> old) @ data)\<rparr>))"

text \<open>The line is \<^verbatim>\<open>f"{note}\t{score}\n"\<close>: tab is \<open>9\<close>, newline is \<open>10\<close>.\<close>

definition record_result ::
  "config \<Rightarrow> runtime \<Rightarrow> str \<Rightarrow> real \<Rightarrow> 'm world \<Rightarrow> 'm world" where
  "record_result cfg rt note score w =
     (if record_enabled cfg then
        (case open_append_write (record_path cfg) (note @ [9] @ str_float rt score @ [10]) w of
           (Inl e, w') \<Rightarrow> w'\<lparr>stderr := stderr w' @ [''Record failed: '' @ str_exception rt e]\<rparr>
         | (Inr u, w') \<Rightarrow> w')
      else w)"

subsection \<open>PredictionInvoker\<close>

text \<open>
  \<^verbatim>\<open>float("{:.4f}".format(x))\<close>. The format is the correctly rounded decimal with
  four digits after the point; a value exactly half-way between two of them goes to the
  one with the even last digit. The float read back is identified with that decimal
  (the response and the record print it as that decimal again).
\<close>

definition round_half_even :: "real \<Rightarrow> int" where
  "round_half_even x =
     (let f = \<lfloor>x\<rfloor>; d = x - of_int f
      in if d < 1 / 2 then f
         else if 1 / 2 < d then f + 1
         else if even f then f else f + 1)"

definition format_4f :: "real \<Rightarrow> real" where
  "format_4f x = of_int (round_half_even (x * 10000)) / 10000"

definition predict ::
  "config \<Rightarrow> 'm learner \<Rightarrow> str \<Rightarrow> 'm world \<Rightarrow> (exception + string \<times> real) \<times> 'm world" where
  "predict cfg learn content w =
     (let truncated_content = validate_content_length cfg content;
          (prediction, m) = learn truncated_content (learner_state w);
          w' = w\<lparr>learner_state := m,
                 predict_calls := predict_calls w @ [truncated_content]\<rparr>
      in case prediction of
           Inl e \<Rightarrow> (Inl e, w')
         | Inr (label, idx, probs) \<Rightarrow>
             if idx < length probs
             then (Inr (label, format_4f (probs ! idx)), w')
             else (Inl IndexError, w'))"

subsection \<open>RequestHandler\<close>

text \<open>\<^verbatim>\<open>data.get("note", "")\<close>: only a dictionary has \<^verbatim>\<open>get\<close>.\<close>

definition get_note :: "json \<Rightarrow> exception + str" where
  "get_note data =
     (case data of
        JObject d \<Rightarrow> Inr (case d ''note'' of None \<Rightarrow> [] | Some v \<Rightarrow> v)
      | JOther \<Rightarrow> Inl AttributeError)"

text \<open>The body of the \<^verbatim>\<open>try\<close> block of \<^verbatim>\<open>predict_endpoint\<close>.\<close>

definition predict_endpoint_try ::
  "config \<Rightarrow> runtime \<Rightarrow> 'm learner \<Rightarrow> request \<Rightarrow> 'm world \<Rightarrow> (exception + response) \<times> 'm world" where
  "predict_endpoint_try cfg rt learn req w =
     (case body req of
        None \<Rightarrow> (Inl JSONDecodeError, w)
      | Some data \<Rightarrow>
          (case get_note data of
             Inl e \<Rightarrow> (Inl e, w)
           | Inr note \<Rightarrow>
               if note = [] then (Inl (HTTPException 400 ''Note is required''), w)
               else if length note < 3 then (Inl (HTTPException 400 ''Note is too short''), w)
               else if is_invisible rt note
               then (Inl (HTTPException 400 ''Note contains only invisible characters''), w)
               else
                 (case predict cfg learn note w of
                    (Inl e, w') \<Rightarrow> (Inl e, w')
                  | (Inr (label, score), w') \<Rightarrow>
                      (Inr (JSONResponse (Prediction label score) 200),
                       record_result cfg rt note score w'))))"

text \<open>
  \<^verbatim>\<open>predict_endpoint\<close>: the \<^verbatim>\<open>try\<close> block under its
  \<^verbatim>\<open>except Exception as e\<close>, which answers every exception raised in the block,
  the \<^verbatim>\<open>HTTPException\<close>s of the checks included, with status 500.
\<close>

definition predict_endpoint ::
  "config \<Rightarrow> runtime \<Rightarrow> 'm learner \<Rightarrow> request \<Rightarrow> 'm world \<Rightarrow> response \<times> 'm world" where
  "predict_endpoint cfg rt learn req w =
     (case predict_endpoint_try cfg rt learn req w of
        (Inl e, w') \<Rightarrow> (JSONResponse (ErrorBody (str_exception rt e)) 500, w')
      | (Inr r, w') \<Rightarrow> (r, w'))"

text \<open>
  Modelled from the spec: the framework's handling of \<^verbatim>\<open>@app.post("/predict/")\<close>
  with \<^verbatim>\<open>Depends(verify_token)\<close>, whose code is not in the repository. The
  dependencies run before the handler; an \<^verbatim>\<open>HTTPException\<close> raised by one of them
  is answered with its status and its detail, and the handler does not run
  (spec 4.5, step 1: ``Run Authorizer; on failure return 403 with the authorizer's
  message, stop'').
\<close>

fun http_exception_handler :: "exception \<Rightarrow> response" where
  "http_exception_handler (HTTPException s d) = JSONResponse (Detail d) s"
| "http_exception_handler e = JSONResponse (Detail ''Internal Server Error'') 500"

definition post_predict ::
  "config \<Rightarrow> runtime \<Rightarrow> 'm learner \<Rightarrow> request \<Rightarrow> 'm world \<Rightarrow> response \<times> 'm world" where
  "post_predict cfg rt learn req w =
     (case security (authorization req) of
        Inl e \<Rightarrow> (http_exception_handler e, w)
      | Inr credentials \<Rightarrow>
          (case verify_token cfg credentials of
             Inl e \<Rightarrow> (http_exception_handler e, w)
           | Inr u \<Rightarrow> predict_endpoint cfg rt learn req w))"

subsection \<open>Notions used in the statements\<close>

text \<open>The note the handler extracts from a request, when it gets that far.\<close>

definition note_of :: "request \<Rightarrow> str option" where
  "note_of req =
     (case body req of
        None \<Rightarrow> None
      | Some data \<Rightarrow> (case get_note data of Inl e \<Rightarrow> None | Inr note \<Rightarrow> Some note))"

text \<open>The three checks of the handler, in its order, on one note.\<close>

definition passes_checks :: "runtime \<Rightarrow> str \<Rightarrow> bool" where
  "passes_checks rt note = (note \<noteq> [] \<and> \<not> length note < 3 \<and> \<not> is_invisible rt note)"

text \<open>A model is deterministic when its answer to a text does not depend on its state.\<close>

definition deterministic :: "'m learner \<Rightarrow> bool" where
  "deterministic learn = (\<forall>text m m'. fst (learn text m) = fst (learn text m'))"

text \<open>
  The reading of ``non-printable'' in the spec's 4.2, item 3: whitespace counts as
  non-printable along with what \<^verbatim>\<open>isprintable\<close> rejects. The ASCII whitespace
  characters are tab, the line breaks \<open>10..13\<close> and the space.
\<close>

definition spec_nonprintable :: "runtime \<Rightarrow> nat \<Rightarrow> bool" where
  "spec_nonprintable rt c = (\<not> isprintable rt c \<or> c \<in> {9, 10, 11, 12, 13, 32})"

subsection \<open>A configuration to evaluate examples on\<close>

text \<open>
  One token, recording on, a maximum length of four characters. The runtime's tables are
  stand-ins: every exception prints as its name, every float as \<open>?\<close>, and no code point
  beyond ASCII is printable. The model answers every text with the label
  \<open>positive\<close> at probability \<open>0.9234567\<close> and counts its calls.
\<close>

definition example_config :: config where
  "example_config =
     \<lparr>tokens = [''abc123''], record_path = ''record.xls'',
      record_enabled = True, max_content_length = 4\<rparr>"

definition example_runtime :: runtime where
  "example_runtime =
     \<lparr>str_exception = (\<lambda>e. case e of HTTPException s d \<Rightarrow> d | _ \<Rightarrow> ''Exception''),
      str_float = (\<lambda>x. [63]),
      unicode_printable = (\<lambda>c. False)\<rparr>"

definition example_learner :: "nat learner" where
  "example_learner text m = (Inr (''positive'', 0, [9234567 / 10000000, 765433 / 10000000]), Suc m)"

definition example_world :: "nat world" where
  "example_world =
     \<lparr>learner_state = 0, predict_calls = [], files = Map.empty, stderr = [], io_fault = None\<rparr>"

definition example_request :: "string option \<Rightarrow> str \<Rightarrow> request" where
  "example_request header note =
     \<lparr>authorization = header, body = Some (JObject [''note'' \<mapsto> note])\<rparr>"

text \<open>
  A model that keeps what it is given: its state is the list of the texts it has been
  called with, in call order. Its answer is that of the model above.
\<close>

definition echo_learner :: "str list learner" where
  "echo_learner t m =
     (Inr (''positive'', 0, [9234567 / 10000000, 765433 / 10000000]), m @ [t])"

definition echo_world :: "str list world" where
  "echo_world =
     \<lparr>learner_state = [], predict_calls = [], files = Map.empty, stderr = [], io_fault = None\<rparr>"

section \<open>Properties\<close>

subsection \<open>The steps of the handler\<close>

lemma predict_world:
  "predict cfg learn content w = (r, w') \<Longrightarrow>
     predict_calls w' = predict_calls w @ [validate_content_length cfg content] \<and>
     files w' = files w \<and> stderr w' = stderr w \<and> io_fault w' = io_fault w"
  by (auto simp: predict_def Let_def split: prod.splits sum.splits if_splits)

lemma record_result_keeps:
  "predict_calls (record_result cfg rt note score w) = predict_calls w \<and>
   learner_state (record_result cfg rt note score w) = learner_state w"
  by (auto simp: record_result_def open_append_write_def
           split: option.splits prod.splits sum.splits)


lemma try_rejected:
  "note_of req = Some note \<Longrightarrow> \<not> passes_checks rt note \<Longrightarrow>
   predict_endpoint_try cfg rt learn req w =
     (Inl (HTTPException 400
        (if note = [] then ''Note is required''
         else if length note < 3 then ''Note is too short''
         else ''Note contains only invisible characters'')), w)"
  by (auto simp: note_of_def passes_checks_def predict_endpoint_try_def
           split: option.splits sum.splits)

lemma try_accepted:
  "note_of req = Some note \<Longrightarrow> passes_checks rt note \<Longrightarrow>
   predict_endpoint_try cfg rt learn req w =
     (case predict cfg learn note w of
        (Inl e, w') \<Rightarrow> (Inl e, w')
      | (Inr (label, score), w') \<Rightarrow>
          (Inr (JSONResponse (Prediction label score) 200),
           record_result cfg rt note score w'))"
  by (auto simp: note_of_def passes_checks_def predict_endpoint_try_def
           split: option.splits sum.splits)

subsection \<open>Rounding to four decimals\<close>

lemma round_half_even_bounds: "\<bar>of_int (round_half_even x) - x\<bar> \<le> 1 / 2"
  unfolding round_half_even_def Let_def by (auto; linarith)

lemma round_half_even_lower: "of_int n \<le> x \<Longrightarrow> n \<le> round_half_even x"
  unfolding round_half_even_def Let_def by (auto simp: le_floor_iff; linarith)

lemma round_half_even_upper:
  assumes "x \<le> of_int n"
  shows "round_half_even x \<le> n"
proof -
  have fl: "\<lfloor>x\<rfloor> \<le> n" using assms by (simp add: floor_le_iff)
  show ?thesis
  proof (cases "\<lfloor>x\<rfloor> = n")
    case True
    then have "x - of_int \<lfloor>x\<rfloor> \<le> 0" using assms by simp
    then show ?thesis using True by (simp add: round_half_even_def Let_def)
  next
    case False
    then have "\<lfloor>x\<rfloor> + 1 \<le> n" using fl by simp
    then show ?thesis by (simp add: round_half_even_def Let_def)
  qed
qed

lemma format_4f_decimal: "\<exists>k::int. format_4f x = of_int k / 10000"
  by (auto simp: format_4f_def)

lemma format_4f_near: "\<bar>format_4f x - x\<bar> \<le> 1 / 20000"
proof -
  have "\<bar>of_int (round_half_even (x * 10000)) - x * 10000\<bar> \<le> 1 / 2"
    by (rule round_half_even_bounds)
  then show ?thesis by (simp add: format_4f_def field_simps abs_le_iff)
qed

lemma format_4f_unit: "0 \<le> x \<Longrightarrow> x \<le> 1 \<Longrightarrow> 0 \<le> format_4f x \<and> format_4f x \<le> 1"
  using round_half_even_lower [of 0 "x * 10000"] round_half_even_upper [of "x * 10000" 10000]
  by (simp add: format_4f_def)

lemma format_4f_example: "format_4f (9234567 / 10000000) = 9235 / 10000"
  by (simp add: format_4f_def round_half_even_def Let_def)

subsection \<open>Authorization\<close>

lemma example_note_of: "note_of (example_request h n) = Some n"
  by (simp add: note_of_def example_request_def get_note_def)

lemma post_predict_refused:
  "authorization req = None \<or> (\<exists>c. authorization req = Some c \<and> c \<notin> set (tokens cfg)) \<Longrightarrow>
   post_predict cfg rt learn req w = (JSONResponse (Detail ''Invalid or missing token'') 403, w)"
  by (auto simp: post_predict_def security_def verify_token_def)


text \<open>
  Claim C2. \<^verbatim>\<open>verify_token\<close> accepts a credential exactly when it is one of the
  configured tokens. A request whose credential is not one of them, or that carries none,
  is answered with status 403; the world is left as it was (no text reaches the model,
  nothing is written) and the answer does not depend on the body, which is never read.
\<close>

theorem authorizer_membership:
  "(verify_token cfg c = Inr () \<longleftrightarrow> c \<in> set (tokens cfg)) \<and>
   (authorization req = None \<or> (\<exists>c. authorization req = Some c \<and> c \<notin> set (tokens cfg)) \<longrightarrow>
      status_code (fst (post_predict cfg rt learn req w)) = 403 \<and>
      snd (post_predict cfg rt learn req w) = w \<and>
      post_predict cfg rt learn (req\<lparr>body := b\<rparr>) w = post_predict cfg rt learn req w)"
proof -
  have "verify_token cfg c = Inr () \<longleftrightarrow> c \<in> set (tokens cfg)"
    by (simp add: verify_token_def)
  moreover have "status_code (fst (post_predict cfg rt learn req w)) = 403 \<and>
      snd (post_predict cfg rt learn req w) = w \<and>
      post_predict cfg rt learn (req\<lparr>body := b\<rparr>) w = post_predict cfg rt learn req w"
    if h: "authorization req = None \<or> (\<exists>c. authorization req = Some c \<and> c \<notin> set (tokens cfg))"
  proof -
    have "authorization (req\<lparr>body := b\<rparr>) = None \<or>
          (\<exists>c. authorization (req\<lparr>body := b\<rparr>) = Some c \<and> c \<notin> set (tokens cfg))"
      using h by simp
    then show ?thesis
      using post_predict_refused [OF h, of rt learn w]
        post_predict_refused [of "req\<lparr>body := b\<rparr>" cfg rt learn w] by simp
  qed
  ultimately show ?thesis by blast
qed

theorem authorizer_membership_witness:
  "verify_token example_config ''abc123'' = Inr () \<and>
   verify_token example_config ''guess'' \<noteq> Inr () \<and>
   status_code (fst (post_predict example_config example_runtime example_learner
      (example_request (Some ''guess'') [104, 105, 33]) example_world)) = 403 \<and>
   snd (post_predict example_config example_runtime example_learner
      (example_request (Some ''guess'') [104, 105, 33]) example_world) = example_world \<and>
   status_code (fst (post_predict example_config example_runtime example_learner
      (example_request None [104, 105, 33]) example_world)) = 403 \<and>
   snd (post_predict example_config example_runtime example_learner
      (example_request None [104, 105, 33]) example_world) = example_world"
  using authorizer_membership [of example_config "''abc123''"
          "example_request (Some ''guess'') [104, 105, 33]" example_runtime example_learner
          example_world None]
        authorizer_membership [of example_config "''guess''"
          "example_request None [104, 105, 33]" example_runtime example_learner
          example_world None]
  by (simp add: example_config_def example_request_def)

subsection \<open>Validation failures\<close>

text \<open>
  Claim C1. The requests below carry the configured token and a note that is empty, a note
  of two characters, and a note of three control characters. Each check raises its
  \<^verbatim>\<open>HTTPException\<close> with status 400 inside the \<^verbatim>\<open>try\<close> block, the
  \<^verbatim>\<open>except Exception\<close> of the same block catches it, and the answer has status 500
  with the exception's string under \<open>error\<close>. The model is not called.
\<close>

theorem validation_failure_answered_500:
  "post_predict example_config rt learn (example_request (Some ''abc123'') []) w =
     (JSONResponse (ErrorBody (str_exception rt (HTTPException 400 ''Note is required''))) 500, w)
   \<and> post_predict example_config rt learn (example_request (Some ''abc123'') [104, 105]) w =
     (JSONResponse (ErrorBody (str_exception rt (HTTPException 400 ''Note is too short''))) 500, w)
   \<and> post_predict example_config rt learn (example_request (Some ''abc123'') [9, 10, 13]) w =
     (JSONResponse (ErrorBody (str_exception rt
        (HTTPException 400 ''Note contains only invisible characters''))) 500, w)"
  by (simp add: post_predict_def security_def verify_token_def example_config_def
        example_request_def predict_endpoint_def predict_endpoint_try_def get_note_def
        is_invisible_def isprintable_def)

subsection \<open>What reaches the model\<close>


lemma endpoint_rejected:
  "note_of req = Some note \<Longrightarrow> \<not> passes_checks rt note \<Longrightarrow>
   \<exists>e. predict_endpoint cfg rt learn req w = (JSONResponse (ErrorBody e) 500, w)"
  using try_rejected [of req "note" rt cfg learn w] by (simp add: predict_endpoint_def)

lemma endpoint_accepted_calls:
  "note_of req = Some note \<Longrightarrow> passes_checks rt note \<Longrightarrow>
   predict_calls (snd (predict_endpoint cfg rt learn req w)) =
     predict_calls w @ [validate_content_length cfg note]"
proof -
  assume a: "note_of req = Some note" "passes_checks rt note"
  obtain r w1 where p: "predict cfg learn note w = (r, w1)" by (cases "predict cfg learn note w")
  from predict_world [OF p] have c: "predict_calls w1 = predict_calls w @ [validate_content_length cfg note]"
    by simp
  show ?thesis
    using try_accepted [OF a, of cfg learn w] p c record_result_keeps [of cfg rt "note" _ w1]
    by (auto simp: predict_endpoint_def split: sum.splits prod.splits)
qed

lemma validate_content_length_take:
  "0 \<le> max_content_length cfg \<Longrightarrow>
   validate_content_length cfg content =
     (if int (length content) > max_content_length cfg
      then take (nat (max_content_length cfg)) content else content)"
  by (simp add: validate_content_length_def slice_to_def)

lemma endpoint_accepted_learner:
  assumes "note_of req = Some note" and "passes_checks rt note"
  shows "learner_state (snd (predict_endpoint cfg rt learn req w)) =
           snd (learn (validate_content_length cfg note) (learner_state w)) \<and>
         fst (predict_endpoint cfg rt learn req w) =
           (case fst (learn (validate_content_length cfg note) (learner_state w)) of
              Inl e \<Rightarrow> JSONResponse (ErrorBody (str_exception rt e)) 500
            | Inr (label, idx, probs) \<Rightarrow>
                if idx < length probs
                then JSONResponse (Prediction label (format_4f (probs ! idx))) 200
                else JSONResponse (ErrorBody (str_exception rt IndexError)) 500)"
proof -
  obtain r m where l: "learn (validate_content_length cfg note) (learner_state w) = (r, m)"
    by (cases "learn (validate_content_length cfg note) (learner_state w)")
  show ?thesis
    using try_accepted [OF assms, of cfg learn w] l
    by (auto simp: predict_endpoint_def predict_def Let_def record_result_keeps
             split: sum.splits prod.splits)
qed

text \<open>
  Claim C4, as stated, fails for a negative maximum length: with \<open>- 2\<close> every note is
  longer than the maximum, the six characters below pass the checks, and the model is
  handed the first four of them (the slice drops the last two), not the first
  \<open>max_content_length\<close> characters, of which there are none.
\<close>

theorem negative_max_drops_tail:
  "max_content_length (example_config\<lparr>max_content_length := - 2\<rparr>) <
     int (length [71, 114, 101, 97, 116, 33 :: nat]) \<and>
   [71, 114, 101, 97, 116, 33 :: nat] \<noteq> [] \<and>
   \<not> length [71, 114, 101, 97, 116, 33 :: nat] < 3 \<and>
   \<not> is_invisible example_runtime [71, 114, 101, 97, 116, 33] \<and>
   learner_state (snd (predict_endpoint (example_config\<lparr>max_content_length := - 2\<rparr>)
      example_runtime echo_learner
      (example_request (Some ''abc123'') [71, 114, 101, 97, 116, 33]) echo_world)) =
     [[71, 114, 101, 97]] \<and>
   take (nat (max_content_length (example_config\<lparr>max_content_length := - 2\<rparr>)))
     [71, 114, 101, 97, 116, 33 :: nat] = []"
  by (simp add: example_config_def example_request_def echo_world_def echo_learner_def
        is_invisible_def isprintable_def predict_endpoint_def predict_endpoint_try_def
        get_note_def predict_def Let_def validate_content_length_def slice_to_def
        record_result_def open_append_write_def)

text \<open>
  Claim C4, amended. With a maximum length that is not negative, the handler tests the
  note as received (non-empty, at least three characters, not invisible). When a check
  fails, nothing changes and the model is not called. When all pass, the model is applied
  to the first \<open>max_content_length\<close> characters of a longer note, and to the note
  unchanged otherwise: the state the model is left in and the answer sent are those the
  model gives for exactly that text.
\<close>

theorem truncation_after_checks:
  assumes "0 \<le> max_content_length cfg" and "note_of req = Some note"
  shows "(if note \<noteq> [] \<and> \<not> length note < 3 \<and> \<not> is_invisible rt note
      then (let t = (if int (length note) > max_content_length cfg
                     then take (nat (max_content_length cfg)) note else note)
            in learner_state (snd (predict_endpoint cfg rt learn req w)) =
                 snd (learn t (learner_state w)) \<and>
               fst (predict_endpoint cfg rt learn req w) =
                 (case fst (learn t (learner_state w)) of
                    Inl e \<Rightarrow> JSONResponse (ErrorBody (str_exception rt e)) 500
                  | Inr (label, idx, probs) \<Rightarrow>
                      if idx < length probs
                      then JSONResponse (Prediction label (format_4f (probs ! idx))) 200
                      else JSONResponse (ErrorBody (str_exception rt IndexError)) 500) \<and>
               predict_calls (snd (predict_endpoint cfg rt learn req w)) =
                 predict_calls w @ [t])
      else snd (predict_endpoint cfg rt learn req w) = w)"
proof (cases "passes_checks rt note")
  case True
  have t: "validate_content_length cfg note =
        (if int (length note) > max_content_length cfg
         then take (nat (max_content_length cfg)) note else note)"
    by (rule validate_content_length_take [OF assms(1)])
  show ?thesis
    using True endpoint_accepted_learner [OF assms(2) True, of cfg learn w]
      endpoint_accepted_calls [OF assms(2) True, of cfg learn w]
    unfolding t Let_def by (simp add: passes_checks_def)
next
  case False
  then show ?thesis
    using endpoint_rejected [OF assms(2) False, of cfg learn w]
    by (auto simp: passes_checks_def)
qed

theorem truncation_after_checks_witness:
  "learner_state (snd (predict_endpoint example_config example_runtime echo_learner
      (example_request (Some ''abc123'') [71, 114, 101, 97, 116, 33]) echo_world)) =
     [[71, 114, 101, 97]] \<and>
   fst (predict_endpoint example_config example_runtime echo_learner
      (example_request (Some ''abc123'') [71, 114, 101, 97, 116, 33]) echo_world) =
     JSONResponse (Prediction ''positive'' (9235 / 10000)) 200 \<and>
   learner_state (snd (predict_endpoint (example_config\<lparr>max_content_length := 2\<rparr>)
      example_runtime echo_learner
      (example_request (Some ''abc123'') [71, 114, 101, 97, 116, 33]) echo_world)) =
     [[71, 114]] \<and>
   learner_state (snd (predict_endpoint example_config example_runtime echo_learner
      (example_request (Some ''abc123'') [71, 114, 101]) echo_world)) =
     [[71, 114, 101]] \<and>
   learner_state (snd (predict_endpoint example_config example_runtime echo_learner
      (example_request (Some ''abc123'') [9, 9, 9, 9, 9, 71]) echo_world)) =
     [[9, 9, 9, 9]] \<and>
   snd (predict_endpoint example_config example_runtime echo_learner
      (example_request (Some ''abc123'') [9, 9, 9, 9, 9, 9]) echo_world) = echo_world"
  using truncation_after_checks [of example_config
          "example_request (Some ''abc123'') [71, 114, 101, 97, 116, 33]"
          "[71, 114, 101, 97, 116, 33]" example_runtime echo_learner echo_world]
        truncation_after_checks [of "example_config\<lparr>max_content_length := 2\<rparr>"
          "example_request (Some ''abc123'') [71, 114, 101, 97, 116, 33]"
          "[71, 114, 101, 97, 116, 33]" example_runtime echo_learner echo_world]
        truncation_after_checks [of example_config
          "example_request (Some ''abc123'') [71, 114, 101]"
          "[71, 114, 101]" example_runtime echo_learner echo_world]
        truncation_after_checks [of example_config
          "example_request (Some ''abc123'') [9, 9, 9, 9, 9, 71]"
          "[9, 9, 9, 9, 9, 71]" example_runtime echo_learner echo_world]
        truncation_after_checks [of example_config
          "example_request (Some ''abc123'') [9, 9, 9, 9, 9, 9]"
          "[9, 9, 9, 9, 9, 9]" example_runtime echo_learner echo_world]
  by (simp add: example_note_of example_config_def echo_world_def echo_learner_def
        is_invisible_def isprintable_def format_4f_example Let_def)



subsection \<open>The prediction call\<close>

lemma predict_result:
  "fst (predict cfg learn content w) =
     (case fst (learn (validate_content_length cfg content) (learner_state w)) of
        Inl e \<Rightarrow> Inl e
      | Inr (label, idx, probs) \<Rightarrow>
          if idx < length probs then Inr (label, format_4f (probs ! idx)) else Inl IndexError)"
  by (auto simp: predict_def Let_def split: prod.splits sum.splits)

lemma endpoint_accepted:
  assumes "note_of req = Some note" and "passes_checks rt note"
    and "predict cfg learn note w = (Inr (label, score), w1)"
  shows "predict_endpoint cfg rt learn req w =
           (JSONResponse (Prediction label score) 200, record_result cfg rt note score w1)"
  using try_accepted [OF assms(1,2), of cfg learn w] assms(3)
  by (simp add: predict_endpoint_def)

text \<open>
  Claim C5. When the note passes the checks and the model answers with a label, an index
  and probabilities that the index is within, the handler answers 200 with that label and a
  score that is the probability of the label rounded to four decimals: a multiple of
  \<open>1/10000\<close> at most \<open>1/20000\<close> away from the probability, within \<open>[0, 1]\<close>
  when the probability is, and \<open>0.9235\<close> for the probability \<open>0.9234567\<close>.
\<close>

theorem score_rounded_to_4_decimals:
  assumes "note_of req = Some note"
    and "note \<noteq> [] \<and> \<not> length note < 3 \<and> \<not> is_invisible rt note"
    and "learn (validate_content_length cfg note) (learner_state w) = (Inr (label, idx, probs), m)"
    and "idx < length probs"
  shows "\<exists>score. fst (predict_endpoint cfg rt learn req w) =
             JSONResponse (Prediction label score) 200 \<and>
           score = format_4f (probs ! idx) \<and>
           (\<exists>k::int. score = of_int k / 10000) \<and>
           \<bar>score - probs ! idx\<bar> \<le> 1 / 20000 \<and>
           (0 \<le> probs ! idx \<and> probs ! idx \<le> 1 \<longrightarrow> 0 \<le> score \<and> score \<le> 1) \<and>
           (probs ! idx = 9234567 / 10000000 \<longrightarrow> score = 9235 / 10000)"
proof -
  let ?p = "probs ! idx"
  have pc: "passes_checks rt note" using assms(2) by (simp add: passes_checks_def)
  obtain w1 where p: "predict cfg learn note w = (Inr (label, format_4f ?p), w1)"
    using assms(3,4) by (simp add: predict_def Let_def)
  have r: "fst (predict_endpoint cfg rt learn req w) =
             JSONResponse (Prediction label (format_4f ?p)) 200"
    using endpoint_accepted [OF assms(1) pc p] by simp
  have ex: "?p = 9234567 / 10000000 \<longrightarrow> format_4f ?p = 9235 / 10000"
  proof
    assume "?p = 9234567 / 10000000"
    then show "format_4f ?p = 9235 / 10000" by (simp only: format_4f_example)
  qed
  show ?thesis
    using r format_4f_decimal [of ?p] format_4f_near [of ?p] format_4f_unit [of ?p] ex
    by blast
qed

theorem score_rounded_to_4_decimals_witness:
  "\<exists>score. fst (predict_endpoint example_config example_runtime example_learner
       (example_request (Some ''abc123'') [71, 114, 101, 97, 116, 33]) example_world) =
         JSONResponse (Prediction ''positive'' score) 200 \<and>
      score = 9235 / 10000 \<and> 0 \<le> score \<and> score \<le> 1"
proof -
  have l: "example_learner
          (validate_content_length example_config [71, 114, 101, 97, 116, 33])
          (learner_state example_world) =
        (Inr (''positive'', 0, [9234567 / 10000000, 765433 / 10000000]), Suc 0)"
    by (simp add: example_learner_def example_world_def)
  have c: "[71, 114, 101, 97, 116, 33::nat] \<noteq> [] \<and> \<not> length [71, 114, 101, 97, 116, 33::nat] < 3 \<and>
           \<not> is_invisible example_runtime [71, 114, 101, 97, 116, 33]"
    by (simp add: is_invisible_def isprintable_def)
  have i: "0 < length [9234567 / 10000000, 765433 / 10000000 :: real]" by simp
  have n: "note_of (example_request (Some ''abc123'') [71, 114, 101, 97, 116, 33]) =
             Some [71, 114, 101, 97, 116, 33]"
    by (rule example_note_of)
  from score_rounded_to_4_decimals [of "example_request (Some ''abc123'') [71, 114, 101, 97, 116, 33]"
         "[71, 114, 101, 97, 116, 33]" example_runtime example_learner example_config
         example_world "''positive''" 0 "[9234567 / 10000000, 765433 / 10000000]" "Suc 0",
         OF n c l i]
  show ?thesis by simp
qed

text \<open>
  Claim C9. With a deterministic model, \<^verbatim>\<open>predict\<close> gives the same label and
  score, or the same exception, for the same note whatever the state of the world it is
  called in; in particular a second call, made in the world the first one left, gives what
  the first gave.
\<close>

theorem predict_repeatable:
  assumes "deterministic learn"
  shows "fst (predict cfg learn content w') = fst (predict cfg learn content w) \<and>
         fst (predict cfg learn content (snd (predict cfg learn content w))) =
           fst (predict cfg learn content w)"
proof -
  have same: "fst (learn t m) = fst (learn t m')" for t m m'
    using assms by (simp add: deterministic_def)
  have "fst (predict cfg learn content v) = fst (predict cfg learn content w)" for v
    unfolding predict_result
    using same [of "validate_content_length cfg content" "learner_state v" "learner_state w"]
    by simp
  then show ?thesis by blast
qed

theorem predict_repeatable_witness:
  "deterministic example_learner \<and>
   fst (predict example_config example_learner [71, 114, 101, 97, 116, 33]
          (snd (predict example_config example_learner [71, 114, 101, 97, 116, 33]
                  example_world))) =
   fst (predict example_config example_learner [71, 114, 101, 97, 116, 33] example_world) \<and>
   learner_state (snd (predict example_config example_learner [71, 114, 101, 97, 116, 33]
                  example_world)) \<noteq> learner_state example_world"
proof -
  have d: "deterministic example_learner"
    by (simp add: deterministic_def example_learner_def)
  have s: "learner_state (snd (predict example_config example_learner
             [71, 114, 101, 97, 116, 33] example_world)) \<noteq> learner_state example_world"
    by (simp add: predict_def example_learner_def example_world_def Let_def)
  show ?thesis
    using d s predict_repeatable [OF d, of example_config "[71, 114, 101, 97, 116, 33]"
      example_world example_world]
    by simp
qed

subsection \<open>A body without a note\<close>

text \<open>
  Claim C8. When the body is an object without a note field, \<^verbatim>\<open>data.get("note", "")\<close>
  gives the empty string without raising, the first check then raises the
  \<^verbatim>\<open>HTTPException\<close> with the detail ``Note is required'', and the \<^verbatim>\<open>try\<close>
  block does exactly what it does for the same object with the note field present and
  empty.
\<close>

theorem absent_note_is_empty:
  assumes "body req = Some (JObject d)" and "d ''note'' = None"
  shows "get_note (JObject d) = Inr [] \<and>
         predict_endpoint_try cfg rt learn req w =
           (Inl (HTTPException 400 ''Note is required''), w) \<and>
         predict_endpoint_try cfg rt learn (req\<lparr>body := Some (JObject (d(''note'' \<mapsto> [])))\<rparr>) w =
           predict_endpoint_try cfg rt learn req w"
  using assms by (simp add: get_note_def predict_endpoint_try_def)

theorem absent_note_is_empty_witness:
  "get_note (JObject [''text'' \<mapsto> [104, 105, 33]]) = Inr [] \<and>
   predict_endpoint_try example_config example_runtime example_learner
     \<lparr>authorization = Some ''abc123'', body = Some (JObject [''text'' \<mapsto> [104, 105, 33]])\<rparr>
     example_world =
     (Inl (HTTPException 400 ''Note is required''), example_world)"
  using absent_note_is_empty [of
      "\<lparr>authorization = Some ''abc123'', body = Some (JObject [''text'' \<mapsto> [104, 105, 33]])\<rparr>"
      "[''text'' \<mapsto> [104, 105, 33]]" example_config example_runtime example_learner
      example_world]
  by simp

subsection \<open>Recording\<close>

lemma record_result_written:
  "record_enabled cfg \<Longrightarrow> io_fault w = None \<Longrightarrow>
   record_result cfg rt n score w =
     w\<lparr>files := (files w)(record_path cfg \<mapsto>
          (case files w (record_path cfg) of None \<Rightarrow> [] | Some old \<Rightarrow> old) @
          n @ [9] @ str_float rt score @ [10])\<rparr>"
  by (simp add: record_result_def open_append_write_def)

lemma record_result_failed:
  "record_enabled cfg \<Longrightarrow> io_fault w = Some (e, fs) \<Longrightarrow>
   record_result cfg rt n score w =
     w\<lparr>files := fs, io_fault := None,
       stderr := stderr w @ [''Record failed: '' @ str_exception rt e]\<rparr>"
  by (simp add: record_result_def open_append_write_def)

lemma record_result_disabled:
  "\<not> record_enabled cfg \<Longrightarrow> record_result cfg rt n score w = w"
  by (simp add: record_result_def)

lemma example_predict:
  "predict example_config example_learner [71, 114, 101, 97, 116, 33] w =
     (Inr (''positive'', 9235 / 10000),
      w\<lparr>learner_state := Suc (learner_state w),
        predict_calls := predict_calls w @ [[71, 114, 101, 97]]\<rparr>)"
  by (simp add: predict_def example_learner_def example_config_def Let_def
        validate_content_length_def slice_to_def format_4f_example)

lemma example_checks:
  "[71, 114, 101, 97, 116, 33::nat] \<noteq> [] \<and> \<not> length [71, 114, 101, 97, 116, 33::nat] < 3 \<and>
   \<not> is_invisible example_runtime [71, 114, 101, 97, 116, 33]"
  by (simp add: is_invisible_def isprintable_def)

text \<open>
  Claim C6. After a successful prediction the handler answers 200 with the label and the
  score, whatever the recorder does. With recording enabled and a write that succeeds, the
  record file (created when absent) gains exactly the line of the note, a tab, the score
  and a newline, no other file changes, and nothing is printed to the error stream. With
  recording enabled and a write that fails, the failure is printed to the error stream and
  the answer is the same. With recording disabled, no file changes and nothing is printed.
\<close>

theorem recording_best_effort:
  assumes "note_of req = Some note"
    and "note \<noteq> [] \<and> \<not> length note < 3 \<and> \<not> is_invisible rt note"
    and "predict cfg learn note w = (Inr (label, score), w1)"
  shows "fst (predict_endpoint cfg rt learn req w) = JSONResponse (Prediction label score) 200 \<and>
    (record_enabled cfg \<and> io_fault w = None \<longrightarrow>
       files (snd (predict_endpoint cfg rt learn req w)) =
         (files w)(record_path cfg \<mapsto>
            (case files w (record_path cfg) of None \<Rightarrow> [] | Some old \<Rightarrow> old) @
            note @ [9] @ str_float rt score @ [10]) \<and>
       stderr (snd (predict_endpoint cfg rt learn req w)) = stderr w) \<and>
    (\<forall>e fs. record_enabled cfg \<and> io_fault w = Some (e, fs) \<longrightarrow>
       files (snd (predict_endpoint cfg rt learn req w)) = fs \<and>
       stderr (snd (predict_endpoint cfg rt learn req w)) =
         stderr w @ [''Record failed: '' @ str_exception rt e]) \<and>
    (\<not> record_enabled cfg \<longrightarrow>
       files (snd (predict_endpoint cfg rt learn req w)) = files w \<and>
       stderr (snd (predict_endpoint cfg rt learn req w)) = stderr w)"
proof -
  have pc: "passes_checks rt note" using assms(2) by (simp add: passes_checks_def)
  have ep: "predict_endpoint cfg rt learn req w =
              (JSONResponse (Prediction label score) 200, record_result cfg rt note score w1)"
    by (rule endpoint_accepted [OF assms(1) pc assms(3)])
  have w1: "files w1 = files w" "stderr w1 = stderr w" "io_fault w1 = io_fault w"
    using predict_world [OF assms(3)] by simp_all
  have a: "fst (predict_endpoint cfg rt learn req w) = JSONResponse (Prediction label score) 200"
    by (simp add: ep)
  have b: "files (snd (predict_endpoint cfg rt learn req w)) =
         (files w)(record_path cfg \<mapsto>
            (case files w (record_path cfg) of None \<Rightarrow> [] | Some old \<Rightarrow> old) @
            note @ [9] @ str_float rt score @ [10]) \<and>
       stderr (snd (predict_endpoint cfg rt learn req w)) = stderr w"
    if "record_enabled cfg" "io_fault w = None"
    using that w1 by (simp add: ep record_result_written)
  have c: "files (snd (predict_endpoint cfg rt learn req w)) = fs \<and>
       stderr (snd (predict_endpoint cfg rt learn req w)) =
         stderr w @ [''Record failed: '' @ str_exception rt e]"
    if "record_enabled cfg" "io_fault w = Some (e, fs)" for e fs
    using that w1 by (simp add: ep record_result_failed [of cfg w1 e fs])
  have d: "files (snd (predict_endpoint cfg rt learn req w)) = files w \<and>
       stderr (snd (predict_endpoint cfg rt learn req w)) = stderr w"
    if "\<not> record_enabled cfg"
    using that w1 by (simp add: ep record_result_disabled)
  from a b c d show ?thesis by blast
qed

theorem recording_best_effort_witness:
  "fst (predict_endpoint example_config example_runtime example_learner
     (example_request (Some ''abc123'') [71, 114, 101, 97, 116, 33]) example_world) =
     JSONResponse (Prediction ''positive'' (9235 / 10000)) 200 \<and>
   files (snd (predict_endpoint example_config example_runtime example_learner
     (example_request (Some ''abc123'') [71, 114, 101, 97, 116, 33]) example_world))
     ''record.xls'' = Some [71, 114, 101, 97, 116, 33, 9, 63, 10] \<and>
   fst (predict_endpoint example_config example_runtime example_learner
     (example_request (Some ''abc123'') [71, 114, 101, 97, 116, 33])
     (example_world\<lparr>io_fault := Some (OSError ''denied'', Map.empty)\<rparr>)) =
     JSONResponse (Prediction ''positive'' (9235 / 10000)) 200 \<and>
   stderr (snd (predict_endpoint example_config example_runtime example_learner
     (example_request (Some ''abc123'') [71, 114, 101, 97, 116, 33])
     (example_world\<lparr>io_fault := Some (OSError ''denied'', Map.empty)\<rparr>))) =
     [''Record failed: Exception''] \<and>
   files (snd (predict_endpoint (example_config\<lparr>record_enabled := False\<rparr>) example_runtime
     example_learner
     (example_request (Some ''abc123'') [71, 114, 101, 97, 116, 33]) example_world)) = Map.empty"
proof -
  let ?n = "[71, 114, 101, 97, 116, 33] :: str"
  let ?req = "example_request (Some ''abc123'') ?n"
  let ?wf = "example_world\<lparr>io_fault := Some (OSError ''denied'', Map.empty)\<rparr>"
  let ?off = "example_config\<lparr>record_enabled := False\<rparr>"
  have p3: "predict ?off example_learner ?n example_world =
     (Inr (''positive'', 9235 / 10000),
      example_world\<lparr>learner_state := Suc (learner_state example_world),
        predict_calls := predict_calls example_world @ [[71, 114, 101, 97]]\<rparr>)"
    by (simp add: predict_def example_learner_def example_config_def Let_def
        validate_content_length_def slice_to_def format_4f_example)
  show ?thesis
    using recording_best_effort [OF example_note_of example_checks example_predict,
            of "Some ''abc123''" example_world]
      recording_best_effort [OF example_note_of example_checks example_predict,
            of "Some ''abc123''" ?wf]
      recording_best_effort [OF example_note_of example_checks p3, of "Some ''abc123''"]
    by (simp add: example_config_def example_world_def example_runtime_def)
qed


lemma validate_content_length_shorter:
  "content \<noteq> [] \<Longrightarrow> max_content_length cfg < int (length content) \<Longrightarrow>
   length (validate_content_length cfg content) < length content"
proof -
  assume a: "content \<noteq> []" "max_content_length cfg < int (length content)"
  have "0 < length content" using a(1) by simp
  then have "\<not> 0 \<le> max_content_length cfg \<Longrightarrow>
             nat (int (length content) + max_content_length cfg) < length content"
    by linarith
  then show ?thesis
    using a(2) by (auto simp: validate_content_length_def slice_to_def)
qed

text \<open>
  Claim C10. When a note longer than the maximum length is predicted and recorded, the line
  added to the record file holds the whole note, while the text handed to the model is
  the truncated one, which is strictly shorter.
\<close>

theorem record_holds_untruncated_note:
  assumes "note_of req = Some note"
    and "note \<noteq> [] \<and> \<not> length note < 3 \<and> \<not> is_invisible rt note"
    and "predict cfg learn note w = (Inr (label, score), w1)"
    and "max_content_length cfg < int (length note)"
    and "record_enabled cfg" and "io_fault w = None"
  shows "files (snd (predict_endpoint cfg rt learn req w)) (record_path cfg) =
           Some ((case files w (record_path cfg) of None \<Rightarrow> [] | Some old \<Rightarrow> old) @
                 note @ [9] @ str_float rt score @ [10]) \<and>
         predict_calls (snd (predict_endpoint cfg rt learn req w)) =
           predict_calls w @ [validate_content_length cfg note] \<and>
         length (validate_content_length cfg note) < length note"
proof -
  have pc: "passes_checks rt note" using assms(2) by (simp add: passes_checks_def)
  have ep: "predict_endpoint cfg rt learn req w =
              (JSONResponse (Prediction label score) 200, record_result cfg rt note score w1)"
    by (rule endpoint_accepted [OF assms(1) pc assms(3)])
  have w1: "files w1 = files w" "io_fault w1 = None"
    using predict_world [OF assms(3)] assms(6) by simp_all
  have f: "files (snd (predict_endpoint cfg rt learn req w)) (record_path cfg) =
           Some ((case files w (record_path cfg) of None \<Rightarrow> [] | Some old \<Rightarrow> old) @
                 note @ [9] @ str_float rt score @ [10])"
    using w1 assms(5) by (simp add: ep record_result_written)
  have c: "predict_calls (snd (predict_endpoint cfg rt learn req w)) =
           predict_calls w @ [validate_content_length cfg note]"
    by (rule endpoint_accepted_calls [OF assms(1) pc])
  have l: "length (validate_content_length cfg note) < length note"
    using assms(2,4) by (simp add: validate_content_length_shorter)
  from f c l show ?thesis by blast
qed

theorem record_holds_untruncated_note_witness:
  "files (snd (predict_endpoint example_config example_runtime example_learner
     (example_request (Some ''abc123'') [71, 114, 101, 97, 116, 33]) example_world))
     ''record.xls'' = Some [71, 114, 101, 97, 116, 33, 9, 63, 10] \<and>
   predict_calls (snd (predict_endpoint example_config example_runtime example_learner
     (example_request (Some ''abc123'') [71, 114, 101, 97, 116, 33]) example_world)) =
     [[71, 114, 101, 97]]"
proof -
  have 1: "max_content_length example_config < int (length [71, 114, 101, 97, 116, 33::nat])"
    by (simp add: example_config_def)
  have 2: "record_enabled example_config" by (simp add: example_config_def)
  have 3: "io_fault example_world = None" by (simp add: example_world_def)
  show ?thesis
    using record_holds_untruncated_note [OF example_note_of example_checks example_predict
            1 2 3, of "Some ''abc123''"]
    by (simp add: example_config_def example_world_def example_runtime_def
          validate_content_length_def slice_to_def)
qed

subsection \<open>Invisible notes\<close>

text \<open>
  Claim C3, as stated, fails on a note of three spaces: each character is whitespace, so
  non-printable in the reading of the claim, yet \<^verbatim>\<open>isprintable\<close> holds of the
  ASCII space, the check does not raise, and the note reaches the model.
\<close>

theorem spaces_pass_invisible_check:
  "list_all (spec_nonprintable example_runtime) [32, 32, 32] \<and>
   3 \<le> length [32, 32, 32::nat] \<and>
   \<not> is_invisible example_runtime [32, 32, 32] \<and>
   predict_endpoint_try example_config example_runtime example_learner
     (example_request (Some ''abc123'') [32, 32, 32]) example_world \<noteq>
     (Inl (HTTPException 400 ''Note contains only invisible characters''), example_world) \<and>
   predict_calls (snd (predict_endpoint_try example_config example_runtime example_learner
     (example_request (Some ''abc123'') [32, 32, 32]) example_world)) = [[32, 32, 32]]"
  by (simp add: spec_nonprintable_def is_invisible_def isprintable_def
        predict_endpoint_try_def example_request_def get_note_def predict_def
        example_learner_def example_config_def example_world_def Let_def
        validate_content_length_def slice_to_def record_result_def open_append_write_def)

text \<open>
  Claim C3, amended. A note of at least three characters none of which is printable in the
  sense of \<^verbatim>\<open>isprintable\<close> makes the invisibility check raise its
  \<^verbatim>\<open>HTTPException\<close> with the detail ``Note contains only invisible characters'',
  whatever its length. Non-printable are the ASCII controls (tab and the line breaks
  among them) and the code points beyond ASCII that the Unicode database classes as
  such; the ASCII space is printable.
\<close>

theorem invisible_note_rejected:
  "(note_of req = Some note \<and> 3 \<le> length note \<and> (\<forall>c \<in> set note. \<not> isprintable rt c) \<longrightarrow>
      predict_endpoint_try cfg rt learn req w =
        (Inl (HTTPException 400 ''Note contains only invisible characters''), w)) \<and>
   (ch < 32 \<or> ch = 127 \<or> (128 \<le> ch \<and> \<not> unicode_printable rt ch) \<longrightarrow>
      \<not> isprintable rt ch) \<and>
   isprintable rt 32"
proof -
  have "predict_endpoint_try cfg rt learn req w =
        (Inl (HTTPException 400 ''Note contains only invisible characters''), w)"
    if h: "note_of req = Some note" "3 \<le> length note" "\<forall>c \<in> set note. \<not> isprintable rt c"
  proof -
    have inv: "is_invisible rt note" using h(3) by (simp add: is_invisible_def list_ex_iff)
    then have "\<not> passes_checks rt note" by (simp add: passes_checks_def)
    from try_rejected [OF h(1) this, of cfg learn w] h(2) show ?thesis by auto
  qed
  moreover have "ch < 32 \<or> ch = 127 \<or> (128 \<le> ch \<and> \<not> unicode_printable rt ch) \<longrightarrow>
      \<not> isprintable rt ch"
    by (auto simp: isprintable_def)
  moreover have "isprintable rt 32" by (simp add: isprintable_def)
  ultimately show ?thesis by blast
qed

theorem invisible_note_rejected_witness:
  "predict_endpoint_try example_config example_runtime example_learner
     (example_request (Some ''abc123'') [9, 10, 13, 8203, 8203]) example_world =
     (Inl (HTTPException 400 ''Note contains only invisible characters''), example_world) \<and>
   \<not> isprintable example_runtime 9 \<and> \<not> isprintable example_runtime 8203"
  using invisible_note_rejected [of "example_request (Some ''abc123'') [9, 10, 13, 8203, 8203]"
      "[9, 10, 13, 8203, 8203]" example_runtime example_config example_learner example_world 9]
    invisible_note_rejected [of "example_request (Some ''abc123'') [9, 10, 13, 8203, 8203]"
      "[9, 10, 13, 8203, 8203]" example_runtime example_config example_learner example_world 8203]
  by (simp add: example_note_of isprintable_def example_runtime_def)

end
